theory Spec2Isabelle
  imports Complex_Main
begin

section \<open>JavaScript numbers\<close>

text \<open>
  The projection engine computes on the TypeScript type \<open>number\<close>.  The model keeps the
  three non-finite values of that type apart from the finite ones, so that a division by
  zero is visible in a result instead of being hidden behind HOL's total division.
  Finite values are exact reals: rounding and overflow of the binary representation are
  not modelled, and there is a single zero (a zero divisor is taken as \<open>+0\<close>).
  The fields of a parameter record are finite numbers, so they are reals, and the
  projections lift them with \<open>Fin\<close> where they compute.
\<close>

datatype number = Fin real | PosInfinity | NegInfinity | NaN

fun isFinite :: "number \<Rightarrow> bool" where
  "isFinite (Fin x) = True"
| "isFinite PosInfinity = False"
| "isFinite NegInfinity = False"
| "isFinite NaN = False"

fun jsNeg :: "number \<Rightarrow> number" where
  "jsNeg (Fin a) = Fin (- a)"
| "jsNeg PosInfinity = NegInfinity"
| "jsNeg NegInfinity = PosInfinity"
| "jsNeg NaN = NaN"

fun jsAdd :: "number \<Rightarrow> number \<Rightarrow> number" where
  "jsAdd NaN b = NaN"
| "jsAdd a NaN = NaN"
| "jsAdd (Fin a) (Fin b) = Fin (a + b)"
| "jsAdd PosInfinity NegInfinity = NaN"
| "jsAdd NegInfinity PosInfinity = NaN"
| "jsAdd PosInfinity b = PosInfinity"
| "jsAdd a PosInfinity = PosInfinity"
| "jsAdd NegInfinity b = NegInfinity"
| "jsAdd a NegInfinity = NegInfinity"

definition jsSub :: "number \<Rightarrow> number \<Rightarrow> number" where
  "jsSub a b = jsAdd a (jsNeg b)"

text \<open>An infinity times a finite factor: the sign follows the factor, and zero gives NaN.\<close>

definition infTimes :: "number \<Rightarrow> real \<Rightarrow> number" where
  "infTimes i b = (if b = 0 then NaN else if 0 < b then i else jsNeg i)"

fun jsMul :: "number \<Rightarrow> number \<Rightarrow> number" where
  "jsMul NaN b = NaN"
| "jsMul a NaN = NaN"
| "jsMul (Fin a) (Fin b) = Fin (a * b)"
| "jsMul (Fin a) i = infTimes i a"
| "jsMul i (Fin b) = infTimes i b"
| "jsMul PosInfinity PosInfinity = PosInfinity"
| "jsMul PosInfinity NegInfinity = NegInfinity"
| "jsMul NegInfinity PosInfinity = NegInfinity"
| "jsMul NegInfinity NegInfinity = PosInfinity"

fun jsDiv :: "number \<Rightarrow> number \<Rightarrow> number" where
  "jsDiv NaN b = NaN"
| "jsDiv a NaN = NaN"
| "jsDiv (Fin a) (Fin b) =
     (if b \<noteq> 0 then Fin (a / b)
      else if a = 0 then NaN
      else if 0 < a then PosInfinity else NegInfinity)"
| "jsDiv (Fin a) i = Fin 0"
| "jsDiv PosInfinity (Fin b) = (if 0 \<le> b then PosInfinity else NegInfinity)"
| "jsDiv NegInfinity (Fin b) = (if 0 \<le> b then NegInfinity else PosInfinity)"
| "jsDiv i j = NaN"

text \<open>The comparisons \<open><=\<close> and \<open>>\<close>: every comparison with NaN is false.\<close>

fun jsLe :: "number \<Rightarrow> number \<Rightarrow> bool" where
  "jsLe NaN b = False"
| "jsLe a NaN = False"
| "jsLe (Fin a) (Fin b) = (a \<le> b)"
| "jsLe a PosInfinity = True"
| "jsLe NegInfinity b = True"
| "jsLe a b = False"

fun jsLt :: "number \<Rightarrow> number \<Rightarrow> bool" where
  "jsLt NaN b = False"
| "jsLt a NaN = False"
| "jsLt (Fin a) (Fin b) = (a < b)"
| "jsLt PosInfinity b = False"
| "jsLt a NegInfinity = False"
| "jsLt a b = True"

definition jsGt :: "number \<Rightarrow> number \<Rightarrow> bool" where
  "jsGt a b = jsLt b a"

fun mathMin :: "number \<Rightarrow> number \<Rightarrow> number" where
  "mathMin NaN b = NaN"
| "mathMin a NaN = NaN"
| "mathMin a b = (if jsLe a b then a else b)"

fun mathMax :: "number \<Rightarrow> number \<Rightarrow> number" where
  "mathMax NaN b = NaN"
| "mathMax a NaN = NaN"
| "mathMax a b = (if jsLe a b then b else a)"

fun mathFloor :: "number \<Rightarrow> number" where
  "mathFloor (Fin a) = Fin (of_int \<lfloor>a\<rfloor>)"
| "mathFloor a = a"

text \<open>
  The remainder operator \<open>%\<close>: the quotient is truncated towards zero, so the result has
  the sign of the dividend; a zero divisor or an infinite dividend gives NaN.
\<close>

definition jsTrunc :: "real \<Rightarrow> int" where
  "jsTrunc x = (if 0 \<le> x then \<lfloor>x\<rfloor> else \<lceil>x\<rceil>)"

fun jsRem :: "number \<Rightarrow> number \<Rightarrow> number" where
  "jsRem NaN b = NaN"
| "jsRem a NaN = NaN"
| "jsRem PosInfinity b = NaN"
| "jsRem NegInfinity b = NaN"
| "jsRem (Fin a) (Fin b) =
     (if b = 0 then NaN else Fin (a - b * of_int (jsTrunc (a / b))))"
| "jsRem (Fin a) i = Fin a"

text \<open>
  \<open>Math.pow\<close>.  An exponent of zero gives 1 whatever the base; a zero base with a
  negative exponent gives Infinity; a negative base with a fractional exponent gives NaN.
\<close>

definition isIntegral :: "real \<Rightarrow> bool" where
  "isIntegral x = (of_int \<lfloor>x\<rfloor> = x)"

definition isOddInteger :: "real \<Rightarrow> bool" where
  "isOddInteger x = (isIntegral x \<and> odd \<lfloor>x\<rfloor>)"

fun mathPow :: "number \<Rightarrow> number \<Rightarrow> number" where
  "mathPow b NaN = NaN"
| "mathPow b (Fin e) =
     (if e = 0 then Fin 1
      else case b of
        NaN \<Rightarrow> NaN
      | PosInfinity \<Rightarrow> (if 0 < e then PosInfinity else Fin 0)
      | NegInfinity \<Rightarrow>
          (if 0 < e then (if isOddInteger e then NegInfinity else PosInfinity) else Fin 0)
      | Fin x \<Rightarrow>
          (if x = 0 then (if 0 < e then Fin 0 else PosInfinity)
           else if isIntegral e then
             (if 0 < e then Fin (x ^ nat \<lfloor>e\<rfloor>) else Fin (1 / x ^ nat (- \<lfloor>e\<rfloor>)))
           else if x < 0 then NaN
           else Fin (x powr e)))"
| "mathPow b PosInfinity =
     (case b of
        NaN \<Rightarrow> NaN
      | Fin x \<Rightarrow> (if 1 < \<bar>x\<bar> then PosInfinity else if \<bar>x\<bar> = 1 then NaN else Fin 0)
      | PosInfinity \<Rightarrow> PosInfinity
      | NegInfinity \<Rightarrow> PosInfinity)"
| "mathPow b NegInfinity =
     (case b of
        NaN \<Rightarrow> NaN
      | Fin x \<Rightarrow> (if 1 < \<bar>x\<bar> then Fin 0 else if \<bar>x\<bar> = 1 then NaN else PosInfinity)
      | PosInfinity \<Rightarrow> Fin 0
      | NegInfinity \<Rightarrow> Fin 0)"

section \<open>The counting loop\<close>

text \<open>
  Every projection runs \<open>for (let year = 1; year <= years; year++)\<close> over an integer
  horizon \<open>years \<ge> 0\<close>, a natural number here: the body is applied to the years
  \<open>1, ..., years\<close> in this order.
\<close>

definition forYears :: "nat \<Rightarrow> (nat \<Rightarrow> 's \<Rightarrow> 's) \<Rightarrow> 's \<Rightarrow> 's" where
  "forYears years body s = fold body [1..<Suc years] s"

section \<open>Securities\<close>

record SecurityParams =
  name :: string
  initialInvestment :: real
  annualReturn :: real
  timeHorizon :: real
  expenseRatio :: real
  oneTimeFee :: real
  dividendYield :: real
  reinvestDividends :: bool

text \<open>The variables of \<open>computeSecurityValues\<close> that its loop updates; \<open>vals\<close> is the
  array \<open>values\<close>.\<close>

record SecurityState =
  compoundedValue :: number
  accumulatedDividends :: number
  vals :: "number list"

definition startingValue :: "SecurityParams \<Rightarrow> number" where
  "startingValue p = jsSub (Fin (SecurityParams.initialInvestment p)) (Fin (oneTimeFee p))"

definition netGrowthRate :: "SecurityParams \<Rightarrow> number" where
  "netGrowthRate p =
     (if reinvestDividends p
      then jsAdd (jsSub (Fin (annualReturn p)) (Fin (expenseRatio p))) (Fin (dividendYield p))
      else jsSub (Fin (annualReturn p)) (Fin (expenseRatio p)))"

definition securityYear :: "SecurityParams \<Rightarrow> nat \<Rightarrow> SecurityState \<Rightarrow> SecurityState" where
  "securityYear p year s =
     (let compounded = jsMul (compoundedValue s) (jsAdd (Fin 1) (netGrowthRate p));
          dividends =
            (if \<not> reinvestDividends p
             then jsAdd (accumulatedDividends s)
                    (jsMul (jsDiv compounded (jsAdd (Fin 1) (netGrowthRate p)))
                       (Fin (dividendYield p)))
             else accumulatedDividends s)
      in \<lparr> compoundedValue = compounded,
           accumulatedDividends = dividends,
           vals = vals s @ [jsAdd compounded dividends] \<rparr>)"

definition securityLoop :: "SecurityParams \<Rightarrow> nat \<Rightarrow> SecurityState" where
  "securityLoop p years =
     forYears years (securityYear p)
       \<lparr> compoundedValue = startingValue p,
         accumulatedDividends = Fin 0,
         vals = [startingValue p] \<rparr>"

definition computeSecurityValues :: "SecurityParams \<Rightarrow> nat \<Rightarrow> number list" where
  "computeSecurityValues p years = vals (securityLoop p years)"

section \<open>Fixed income\<close>

datatype CompoundingMethod = Simple | Annual

record FixedIncomeParams =
  name :: string
  principal :: real
  annualYield :: real
  maturityYears :: real
  compoundingMethod :: CompoundingMethod
  reinvestAtMaturity :: bool
  timeHorizon :: real

text \<open>The body of the loop of \<open>computeFixedIncomeValues\<close>: the value pushed for \<open>year\<close>.\<close>

definition fixedIncomeValue :: "FixedIncomeParams \<Rightarrow> nat \<Rightarrow> number" where
  "fixedIncomeValue p year =
     (if compoundingMethod p = Simple then
        (if reinvestAtMaturity p then
           (let completedCycles = mathFloor (jsDiv (Fin (real year)) (Fin (maturityYears p)));
                remainder = jsRem (Fin (real year)) (Fin (maturityYears p));
                cycleMultiplier = jsAdd (Fin 1) (jsMul (Fin (annualYield p)) (Fin (maturityYears p)))
            in jsMul (jsMul (Fin (principal p)) (mathPow cycleMultiplier completedCycles))
                 (jsAdd (Fin 1) (jsMul (Fin (annualYield p)) remainder)))
         else
           (let effectiveYears = mathMin (Fin (real year)) (Fin (maturityYears p))
            in jsMul (Fin (principal p)) (jsAdd (Fin 1) (jsMul (Fin (annualYield p)) effectiveYears))))
      else
        (if reinvestAtMaturity p then
           jsMul (Fin (principal p)) (mathPow (jsAdd (Fin 1) (Fin (annualYield p))) (Fin (real year)))
         else
           (let effectiveYears = mathMin (Fin (real year)) (Fin (maturityYears p))
            in jsMul (Fin (principal p)) (mathPow (jsAdd (Fin 1) (Fin (annualYield p))) effectiveYears))))"

definition computeFixedIncomeValues :: "FixedIncomeParams \<Rightarrow> nat \<Rightarrow> number list" where
  "computeFixedIncomeValues p years =
     forYears years (\<lambda>year vs. vs @ [fixedIncomeValue p year]) [Fin (principal p)]"

section \<open>Precious metals\<close>

record PreciousMetalParams =
  name :: string
  initialInvestment :: real
  annualPriceIncrease :: real
  timeHorizon :: real
  transactionFeePercent :: real

definition preciousMetalValue :: "PreciousMetalParams \<Rightarrow> nat \<Rightarrow> number" where
  "preciousMetalValue p year =
     (let grossValue =
            jsMul (Fin (PreciousMetalParams.initialInvestment p))
              (mathPow (jsAdd (Fin 1) (Fin (annualPriceIncrease p))) (Fin (real year)));
          netValue = jsMul grossValue (jsSub (Fin 1) (Fin (transactionFeePercent p)))
      in netValue)"

definition computePreciousMetalValues :: "PreciousMetalParams \<Rightarrow> nat \<Rightarrow> number list" where
  "computePreciousMetalValues p years =
     forYears years (\<lambda>year vs. vs @ [preciousMetalValue p year])
       [Fin (PreciousMetalParams.initialInvestment p)]"

section \<open>Rental property\<close>

text \<open>
  The repository holds two snapshots of the rental parameter record.  The projection
  \<open>computeRentalValues\<close> and the interface declared beside it use the value-relative fields
  \<open>monthlyRentalPercent\<close> and \<open>annualInsuranceCostPercent\<close>; the validator
  \<open>validateRentalParams\<close> reads the dollar fields \<open>monthlyRentalIncome\<close> and
  \<open>insuranceCost\<close> of the other snapshot.  The record has the fields of the first
  interface, and the two dollar fields as options: \<open>None\<close> is an object without that
  property, where reading it yields \<open>undefined\<close>.
\<close>

record RentalPropertyParams =
  name :: string
  purchasePrice :: real
  downPayment :: real
  mortgageRate :: real
  mortgageDuration :: real
  monthlyRentalPercent :: real
  annualAppreciation :: real
  timeHorizon :: real
  maintenanceCostPercent :: real
  annualInsuranceCostPercent :: real
  propertyTaxRate :: real
  vacancyRate :: real
  sellingCostPercent :: real
  monthlyRentalIncome :: "real option"
  insuranceCost :: "real option"

record RentalState =
  propertyValue :: number
  remainingMortgage :: number
  cumulativeCashFlow :: number
  vals :: "number list"

definition mortgageAmount :: "RentalPropertyParams \<Rightarrow> number" where
  "mortgageAmount p = jsSub (Fin (purchasePrice p)) (Fin (downPayment p))"

definition annualMortgagePayment :: "RentalPropertyParams \<Rightarrow> number" where
  "annualMortgagePayment p =
     (if jsLe (mortgageAmount p) (Fin 0) then Fin 0
      else if mortgageRate p = 0 then
        jsMul (jsDiv (mortgageAmount p) (jsMul (Fin (mortgageDuration p)) (Fin 12))) (Fin 12)
      else
        (let monthlyRate = jsDiv (Fin (mortgageRate p)) (Fin 12);
             totalMonths = jsMul (Fin (mortgageDuration p)) (Fin 12);
             factor = mathPow (jsAdd (Fin 1) monthlyRate) totalMonths;
             monthlyPayment =
               jsDiv (jsMul (mortgageAmount p) (jsMul monthlyRate factor)) (jsSub factor (Fin 1))
         in jsMul monthlyPayment (Fin 12)))"

text \<open>
  The mortgage block of the loop body: from the year and the balance before it, the
  payment charged this year (\<open>mortgagePaymentThisYear\<close>) and the balance after it.
\<close>

definition mortgageYear :: "RentalPropertyParams \<Rightarrow> nat \<Rightarrow> number \<Rightarrow> number \<times> number" where
  "mortgageYear p year remaining =
     (if jsLe (Fin (real year)) (Fin (mortgageDuration p)) \<and> jsGt (mortgageAmount p) (Fin 0) then
        (let interestThisYear = jsMul remaining (Fin (mortgageRate p));
             principalThisYear =
               mathMin (jsSub (annualMortgagePayment p) interestThisYear) remaining
         in (annualMortgagePayment p, mathMax (jsSub remaining principalThisYear) (Fin 0)))
      else (Fin 0, remaining))"

definition rentalYear :: "RentalPropertyParams \<Rightarrow> nat \<Rightarrow> RentalState \<Rightarrow> RentalState" where
  "rentalYear p year s =
     (let value = jsMul (propertyValue s) (jsAdd (Fin 1) (Fin (annualAppreciation p)));
          (mortgagePaymentThisYear, remaining) = mortgageYear p year (remainingMortgage s);
          maintenance = jsMul value (Fin (maintenanceCostPercent p));
          propertyTax = jsMul value (Fin (propertyTaxRate p));
          insurance = jsMul value (Fin (annualInsuranceCostPercent p));
          totalExpenses = jsAdd (jsAdd maintenance insurance) propertyTax;
          effectiveRentalIncome =
            jsMul (jsMul (jsMul value (Fin (monthlyRentalPercent p))) (Fin 12))
              (jsSub (Fin 1) (Fin (vacancyRate p)));
          netCashFlow = jsSub (jsSub effectiveRentalIncome mortgagePaymentThisYear) totalExpenses;
          cumulative = jsAdd (cumulativeCashFlow s) netCashFlow;
          sellingCosts = jsMul value (Fin (sellingCostPercent p));
          equity = jsSub (jsSub value remaining) sellingCosts
      in \<lparr> propertyValue = value,
           remainingMortgage = remaining,
           cumulativeCashFlow = cumulative,
           vals = RentalState.vals s @ [jsAdd equity cumulative] \<rparr>)"

definition rentalLoop :: "RentalPropertyParams \<Rightarrow> nat \<Rightarrow> RentalState" where
  "rentalLoop p years =
     forYears years (rentalYear p)
       \<lparr> propertyValue = Fin (purchasePrice p),
         remainingMortgage = mortgageAmount p,
         cumulativeCashFlow = Fin 0,
         vals = [Fin (downPayment p)] \<rparr>"

definition computeRentalValues :: "RentalPropertyParams \<Rightarrow> nat \<Rightarrow> number list" where
  "computeRentalValues p years = RentalState.vals (rentalLoop p years)"

section \<open>Validation\<close>

record ValidationError =
  field :: string
  message :: string

text \<open>One check of a validator: \<open>if (c) { errors.push(e) }\<close>.\<close>

definition pushIf :: "bool \<Rightarrow> ValidationError \<Rightarrow> ValidationError list \<Rightarrow> ValidationError list" where
  "pushIf c e errors = (if c then errors @ [e] else errors)"

text \<open>
  \<open>Number.isInteger\<close> on a finite number is \<open>isIntegral\<close>.  The comparison
  \<open>params.f < b\<close> on a property the object may lack: \<open>undefined < b\<close> is false.
\<close>

fun propertyLt :: "real option \<Rightarrow> real \<Rightarrow> bool" where
  "propertyLt None b = False"
| "propertyLt (Some a) b = (a < b)"

definition validateSecurityParams :: "SecurityParams \<Rightarrow> ValidationError list" where
  "validateSecurityParams p =
     (let errors = [];
          errors = pushIf (SecurityParams.initialInvestment p < 0)
            \<lparr> field = ''initialInvestment'', message = ''Initial investment must be non-negative'' \<rparr> errors;
          errors = pushIf (annualReturn p < - 1)
            \<lparr> field = ''annualReturn'', message = ''Annual return cannot be less than -100%'' \<rparr> errors;
          errors = pushIf (SecurityParams.timeHorizon p \<le> 0)
            \<lparr> field = ''timeHorizon'', message = ''Time horizon must be greater than 0'' \<rparr> errors;
          errors = pushIf (\<not> isIntegral (SecurityParams.timeHorizon p))
            \<lparr> field = ''timeHorizon'', message = ''Time horizon must be a whole number'' \<rparr> errors;
          errors = pushIf (expenseRatio p < 0)
            \<lparr> field = ''expenseRatio'', message = ''Expense ratio must be non-negative'' \<rparr> errors;
          errors = pushIf (expenseRatio p > 1)
            \<lparr> field = ''expenseRatio'', message = ''Expense ratio cannot exceed 100%'' \<rparr> errors;
          errors = pushIf (oneTimeFee p < 0)
            \<lparr> field = ''oneTimeFee'', message = ''One-time fee must be non-negative'' \<rparr> errors;
          errors = pushIf (oneTimeFee p > SecurityParams.initialInvestment p)
            \<lparr> field = ''oneTimeFee'', message = ''One-time fee cannot exceed initial investment'' \<rparr> errors;
          errors = pushIf (dividendYield p < 0)
            \<lparr> field = ''dividendYield'', message = ''Dividend yield must be non-negative'' \<rparr> errors;
          errors = pushIf (dividendYield p > 1)
            \<lparr> field = ''dividendYield'', message = ''Dividend yield cannot exceed 100%'' \<rparr> errors
      in errors)"

definition validateRentalParams :: "RentalPropertyParams \<Rightarrow> ValidationError list" where
  "validateRentalParams p =
     (let errors = [];
          errors = pushIf (purchasePrice p < 0)
            \<lparr> field = ''purchasePrice'', message = ''Purchase price must be non-negative'' \<rparr> errors;
          errors = pushIf (downPayment p < 0)
            \<lparr> field = ''downPayment'', message = ''Down payment must be non-negative'' \<rparr> errors;
          errors = pushIf (downPayment p > purchasePrice p)
            \<lparr> field = ''downPayment'', message = ''Down payment cannot exceed purchase price'' \<rparr> errors;
          errors = pushIf (mortgageRate p < 0)
            \<lparr> field = ''mortgageRate'', message = ''Mortgage rate must be non-negative'' \<rparr> errors;
          errors = pushIf (mortgageRate p > 1)
            \<lparr> field = ''mortgageRate'', message = ''Mortgage rate cannot exceed 100%'' \<rparr> errors;
          errors = pushIf (mortgageDuration p \<le> 0)
            \<lparr> field = ''mortgageDuration'', message = ''Mortgage duration must be greater than 0'' \<rparr> errors;
          errors = pushIf (\<not> isIntegral (mortgageDuration p))
            \<lparr> field = ''mortgageDuration'', message = ''Mortgage duration must be a whole number'' \<rparr> errors;
          errors = pushIf (propertyLt (monthlyRentalIncome p) 0)
            \<lparr> field = ''monthlyRentalIncome'', message = ''Monthly rental income must be non-negative'' \<rparr> errors;
          errors = pushIf (annualAppreciation p < - 1)
            \<lparr> field = ''annualAppreciation'', message = ''Annual appreciation cannot be less than -100%'' \<rparr> errors;
          errors = pushIf (RentalPropertyParams.timeHorizon p \<le> 0)
            \<lparr> field = ''timeHorizon'', message = ''Time horizon must be greater than 0'' \<rparr> errors;
          errors = pushIf (\<not> isIntegral (RentalPropertyParams.timeHorizon p))
            \<lparr> field = ''timeHorizon'', message = ''Time horizon must be a whole number'' \<rparr> errors;
          errors = pushIf (maintenanceCostPercent p < 0)
            \<lparr> field = ''maintenanceCostPercent'', message = ''Maintenance cost must be non-negative'' \<rparr> errors;
          errors = pushIf (maintenanceCostPercent p > 1)
            \<lparr> field = ''maintenanceCostPercent'', message = ''Maintenance cost cannot exceed 100%'' \<rparr> errors;
          errors = pushIf (propertyLt (insuranceCost p) 0)
            \<lparr> field = ''insuranceCost'', message = ''Insurance cost must be non-negative'' \<rparr> errors;
          errors = pushIf (propertyTaxRate p < 0)
            \<lparr> field = ''propertyTaxRate'', message = ''Property tax rate must be non-negative'' \<rparr> errors;
          errors = pushIf (propertyTaxRate p > 1)
            \<lparr> field = ''propertyTaxRate'', message = ''Property tax rate cannot exceed 100%'' \<rparr> errors;
          errors = pushIf (vacancyRate p < 0)
            \<lparr> field = ''vacancyRate'', message = ''Vacancy rate must be non-negative'' \<rparr> errors;
          errors = pushIf (vacancyRate p > 1)
            \<lparr> field = ''vacancyRate'', message = ''Vacancy rate cannot exceed 100%'' \<rparr> errors;
          errors = pushIf (sellingCostPercent p < 0)
            \<lparr> field = ''sellingCostPercent'', message = ''Selling cost must be non-negative'' \<rparr> errors;
          errors = pushIf (sellingCostPercent p > 1)
            \<lparr> field = ''sellingCostPercent'', message = ''Selling cost cannot exceed 100%'' \<rparr> errors
      in errors)"




section \<open>The cash-dividend track of the specification\<close>

text \<open>
  The cash-dividend track as the specification words it: the principal compounds at
  \<open>annualReturn - expenseRatio\<close>, the dividend of a year is \<open>dividendYield\<close> times the
  compounded balance of the year before, and dividend cash is a running sum.
\<close>

fun specCompoundedPrincipal :: "SecurityParams \<Rightarrow> nat \<Rightarrow> real" where
  "specCompoundedPrincipal p 0 = SecurityParams.initialInvestment p - oneTimeFee p"
| "specCompoundedPrincipal p (Suc t) =
     specCompoundedPrincipal p t * (1 + (annualReturn p - expenseRatio p))"

fun specCumulativeDividendCash :: "SecurityParams \<Rightarrow> nat \<Rightarrow> real" where
  "specCumulativeDividendCash p 0 = 0"
| "specCumulativeDividendCash p (Suc t) =
     specCumulativeDividendCash p t + dividendYield p * specCompoundedPrincipal p t"

definition specCashDividendValue :: "SecurityParams \<Rightarrow> nat \<Rightarrow> real" where
  "specCashDividendValue p t = specCompoundedPrincipal p t + specCumulativeDividendCash p t"

section \<open>Example records\<close>

text \<open>
  The baseline records of the test suites, the default record of the rental model, and the
  variations of them that the theorems below evaluate.
\<close>

definition fixedIncomeBase :: FixedIncomeParams where
  "fixedIncomeBase =
     \<lparr> FixedIncomeParams.name = ''Test CD'', principal = 10000, annualYield = 5 / 100,
       maturityYears = 5, compoundingMethod = Annual, reinvestAtMaturity = False,
       FixedIncomeParams.timeHorizon = 10 \<rparr>"

definition preciousMetalBase :: PreciousMetalParams where
  "preciousMetalBase =
     \<lparr> PreciousMetalParams.name = ''Test Gold'', PreciousMetalParams.initialInvestment = 10000,
       annualPriceIncrease = 5 / 100, PreciousMetalParams.timeHorizon = 10,
       transactionFeePercent = 0 \<rparr>"

definition securityBase :: SecurityParams where
  "securityBase =
     \<lparr> SecurityParams.name = ''Test Security'', SecurityParams.initialInvestment = 10000,
       annualReturn = 1 / 10, SecurityParams.timeHorizon = 10, expenseRatio = 0,
       oneTimeFee = 0, dividendYield = 0, reinvestDividends = True \<rparr>"

text \<open>A total loss with dividends paid out: every field is within the validator's bounds.\<close>

definition securityTotalLoss :: SecurityParams where
  "securityTotalLoss =
     securityBase\<lparr>annualReturn := - 1, dividendYield := 2 / 100, reinvestDividends := False\<rparr>"

text \<open>An expense ratio of 100% that eats a flat return, dividends paid out.\<close>

definition securityFullExpense :: SecurityParams where
  "securityFullExpense =
     securityBase\<lparr>annualReturn := 0, expenseRatio := 1, dividendYield := 2 / 100,
       reinvestDividends := False\<rparr>"

text \<open>A simple-interest instrument rolled over at maturity, with a maturity of zero years.\<close>

definition fixedIncomeZeroMaturity :: FixedIncomeParams where
  "fixedIncomeZeroMaturity =
     fixedIncomeBase\<lparr>compoundingMethod := Simple, reinvestAtMaturity := True, maturityYears := 0\<rparr>"

text \<open>The baseline of the rental test suite, a record of the dollar snapshot.  The two
  value-relative fields are the same amounts at the purchase price: 2000 a month of 300000, and
  no insurance.\<close>

definition rentalBase :: RentalPropertyParams where
  "rentalBase =
     \<lparr> RentalPropertyParams.name = ''Test Rental'', purchasePrice = 300000, downPayment = 60000,
       mortgageRate = 6 / 100, mortgageDuration = 30, monthlyRentalPercent = 1 / 150,
       annualAppreciation = 3 / 100, RentalPropertyParams.timeHorizon = 30,
       maintenanceCostPercent = 0, annualInsuranceCostPercent = 0, propertyTaxRate = 0,
       vacancyRate = 0, sellingCostPercent = 0,
       monthlyRentalIncome = Some 2000, insuranceCost = Some 0 \<rparr>"

text \<open>\<open>DEFAULT_RENTAL_PARAMS\<close> of the value-relative snapshot: an object without the dollar
  fields.\<close>

definition rentalDefault :: RentalPropertyParams where
  "rentalDefault =
     \<lparr> RentalPropertyParams.name = [], purchasePrice = 300000, downPayment = 60000,
       mortgageRate = 65 / 1000, mortgageDuration = 30, monthlyRentalPercent = 1 / 100,
       annualAppreciation = 3 / 100, RentalPropertyParams.timeHorizon = 30,
       maintenanceCostPercent = 1 / 100, annualInsuranceCostPercent = 1 / 100,
       propertyTaxRate = 12 / 1000, vacancyRate = 5 / 100, sellingCostPercent = 6 / 100,
       monthlyRentalIncome = None, insuranceCost = None \<rparr>"

text \<open>A property paid in full, so that no mortgage enters the first year.\<close>

definition rentalPaidInFull :: RentalPropertyParams where
  "rentalPaidInFull = rentalDefault\<lparr>downPayment := 300000\<rparr>"

text \<open>The record of the test \<open>computes zero appreciation correctly\<close>: no appreciation, no
  interest, no rent, and the baseline's zero cost rates.\<close>

definition rentalFlat :: RentalPropertyParams where
  "rentalFlat =
     rentalBase\<lparr>annualAppreciation := 0, mortgageRate := 0, monthlyRentalPercent := 0,
       monthlyRentalIncome := Some 0\<rparr>"

text \<open>The baseline loan of 240000 at 6%, over a term of one year: a valid record.\<close>

definition rentalOneYearLoan :: RentalPropertyParams where
  "rentalOneYearLoan = rentalBase\<lparr>mortgageDuration := 1\<rparr>"

section \<open>Facts about numbers\<close>

lemma jsSub_Fin [simp]: "jsSub (Fin a) (Fin b) = Fin (a - b)"
  by (simp add: jsSub_def)

lemma jsGt_Fin [simp]: "jsGt (Fin a) (Fin b) = (b < a)"
  by (simp add: jsGt_def)

lemma mathMin_Fin [simp]: "mathMin (Fin a) (Fin b) = Fin (min a b)"
  by (simp add: min_def)

lemma mathMax_Fin [simp]: "mathMax (Fin a) (Fin b) = Fin (max a b)"
  by (simp add: max_def)

lemma isIntegral_of_nat [simp]: "isIntegral (real n)"
  by (simp add: isIntegral_def)

lemma mathPow_nat [simp]: "mathPow (Fin x) (Fin (real n)) = Fin (x ^ n)"
  by (simp add: isIntegral_def)

section \<open>Facts about the counting loop\<close>

lemma forYears_0: "forYears 0 body s = s"
  by (simp add: forYears_def)

lemma forYears_Suc: "forYears (Suc n) body s = body (Suc n) (forYears n body s)"
  by (simp add: forYears_def)

lemma pushes_length: "length (forYears n (\<lambda>year vs. vs @ [f year]) init) = length init + n"
  by (induction n) (simp_all add: forYears_0 forYears_Suc)

lemma pushes_nth_old:
  "i < length init \<Longrightarrow> forYears n (\<lambda>year vs. vs @ [f year]) init ! i = init ! i"
  by (induction n) (simp_all add: forYears_0 forYears_Suc nth_append pushes_length)

lemma pushes_nth_new:
  "1 \<le> t \<Longrightarrow> t \<le> n \<Longrightarrow> forYears n (\<lambda>year vs. vs @ [f year]) [v0] ! t = f t"
proof (induction n)
  case 0 then show ?case by simp
next
  case (Suc n)
  show ?case
  proof (cases "t = Suc n")
    case True
    then show ?thesis by (simp add: forYears_Suc nth_append pushes_length)
  next
    case False
    with Suc have "t \<le> n" by simp
    with Suc show ?thesis by (simp add: forYears_Suc nth_append pushes_length)
  qed
qed

lemma pushes_1: "forYears (Suc 0) (\<lambda>year vs. vs @ [f year]) init = init @ [f 1]"
  using forYears_Suc [of 0 "\<lambda>year vs. vs @ [f year]" init] by (simp add: forYears_0)

section \<open>Facts about the security loop\<close>

lemma securityYear_vals:
  "SecurityState.vals (securityYear p year s) =
     SecurityState.vals s @ [jsAdd (compoundedValue (securityYear p year s)) (accumulatedDividends (securityYear p year s))]"
  by (simp add: securityYear_def Let_def)

lemma securityLoop_length: "length (SecurityState.vals (securityLoop p n)) = Suc n"
  by (induction n) (simp_all add: securityLoop_def forYears_0 forYears_Suc securityYear_vals)

lemma securityLoop_first: "SecurityState.vals (securityLoop p n) ! 0 = startingValue p"
proof (induction n)
  case 0
  show ?case by (simp add: securityLoop_def forYears_0)
next
  case (Suc n)
  have "SecurityState.vals (securityLoop p (Suc n)) =
      SecurityState.vals (securityLoop p n) @ [jsAdd (compoundedValue (securityLoop p (Suc n))) (accumulatedDividends (securityLoop p (Suc n)))]"
    by (simp add: securityLoop_def forYears_Suc securityYear_vals)
  then show ?case using Suc securityLoop_length [of p n]
    by (simp add: nth_append)
qed

lemma securityLoop_nth:
  "1 \<le> t \<Longrightarrow> t \<le> n \<Longrightarrow>
     SecurityState.vals (securityLoop p n) ! t =
       jsAdd (compoundedValue (securityLoop p t)) (accumulatedDividends (securityLoop p t))"
proof (induction n)
  case 0
  then show ?case by simp
next
  case (Suc n)
  have step: "SecurityState.vals (securityLoop p (Suc n)) =
      SecurityState.vals (securityLoop p n) @
        [jsAdd (compoundedValue (securityLoop p (Suc n))) (accumulatedDividends (securityLoop p (Suc n)))]"
    by (simp add: securityLoop_def forYears_Suc securityYear_vals)
  show ?case
  proof (cases "t = Suc n")
    case True
    then show ?thesis using step securityLoop_length [of p n] by (simp add: nth_append)
  next
    case False
    with Suc.prems have "t \<le> n" by simp
    with Suc show ?thesis using step securityLoop_length [of p n] by (simp add: nth_append)
  qed
qed

lemma securityYear_cash_dividends:
  assumes "\<not> reinvestDividends p" and "1 + (annualReturn p - expenseRatio p) \<noteq> 0"
    and "compoundedValue s = Fin c" and "accumulatedDividends s = Fin a"
  shows "compoundedValue (securityYear p year s) = Fin (c * (1 + (annualReturn p - expenseRatio p)))
         \<and> accumulatedDividends (securityYear p year s) = Fin (a + dividendYield p * c)"
  using assms by (simp add: securityYear_def Let_def netGrowthRate_def)

lemma securityLoop_cash_dividends:
  assumes "\<not> reinvestDividends p" and "annualReturn p - expenseRatio p \<noteq> - 1"
  shows "compoundedValue (securityLoop p k) = Fin (specCompoundedPrincipal p k)
         \<and> accumulatedDividends (securityLoop p k) = Fin (specCumulativeDividendCash p k)"
proof (induction k)
  case 0
  show ?case by (simp add: securityLoop_def forYears_0 startingValue_def)
next
  case (Suc k)
  from assms have nz: "1 + (annualReturn p - expenseRatio p) \<noteq> 0" by simp
  have "securityLoop p (Suc k) = securityYear p (Suc k) (securityLoop p k)"
    by (simp add: securityLoop_def forYears_Suc)
  with securityYear_cash_dividends [OF assms(1) nz, of "securityLoop p k" _ _ "Suc k"] Suc
  show ?case by simp
qed

text \<open>
  Away from a net growth rate of -100% the loop follows the track of the specification:
  the division by \<open>1 + netGrowthRate\<close> gives back the balance of the year before.
\<close>

lemma security_cash_dividends_general:
  assumes "\<not> reinvestDividends p" and "annualReturn p - expenseRatio p \<noteq> - 1" and "t \<le> years"
  shows "computeSecurityValues p years ! t = Fin (specCashDividendValue p t)"
proof (cases "t = 0")
  case True
  then show ?thesis
    by (simp add: computeSecurityValues_def securityLoop_first startingValue_def
        specCashDividendValue_def)
next
  case False
  with assms(3) have "SecurityState.vals (securityLoop p years) ! t =
      jsAdd (compoundedValue (securityLoop p t)) (accumulatedDividends (securityLoop p t))"
    by (simp add: securityLoop_nth)
  with securityLoop_cash_dividends [OF assms(1,2), of t] show ?thesis
    by (simp add: computeSecurityValues_def specCashDividendValue_def)
qed

lemma securityLoop_1:
  "securityLoop p (Suc 0) = securityYear p 1
     \<lparr> compoundedValue = startingValue p, accumulatedDividends = Fin 0, vals = [startingValue p] \<rparr>"
  using forYears_Suc [of 0 "securityYear p"] by (simp add: securityLoop_def forYears_0)

section \<open>Facts about the fixed-income loop\<close>

lemma fixedIncome_nth:
  "1 \<le> t \<Longrightarrow> t \<le> years \<Longrightarrow> computeFixedIncomeValues p years ! t = fixedIncomeValue p t"
  by (simp add: computeFixedIncomeValues_def pushes_nth_new)

lemma fixedIncomeValue_annual_reinvest:
  "compoundingMethod p = Annual \<Longrightarrow> reinvestAtMaturity p \<Longrightarrow>
     fixedIncomeValue p year = Fin (principal p * (1 + annualYield p) ^ year)"
  by (simp add: fixedIncomeValue_def)

section \<open>Facts about the rental loop\<close>

lemma rentalYear_vals:
  "RentalState.vals (rentalYear p year s) =
     RentalState.vals s @ [last (RentalState.vals (rentalYear p year s))]"
  by (simp add: rentalYear_def Let_def split: prod.split)

lemma rentalLoop_length: "length (RentalState.vals (rentalLoop p n)) = Suc n"
proof (induction n)
  case 0
  show ?case by (simp add: rentalLoop_def forYears_0)
next
  case (Suc n)
  have "RentalState.vals (rentalLoop p (Suc n)) =
      RentalState.vals (rentalLoop p n) @ [last (RentalState.vals (rentalLoop p (Suc n)))]"
    unfolding rentalLoop_def forYears_Suc by (rule rentalYear_vals)
  then have "length (RentalState.vals (rentalLoop p (Suc n))) =
      Suc (length (RentalState.vals (rentalLoop p n)))"
    by (metis length_append_singleton)
  with Suc show ?case by simp
qed

lemma rentalLoop_first: "RentalState.vals (rentalLoop p n) ! 0 = Fin (downPayment p)"
proof (induction n)
  case 0
  show ?case by (simp add: rentalLoop_def forYears_0)
next
  case (Suc n)
  have "RentalState.vals (rentalLoop p (Suc n)) =
      RentalState.vals (rentalLoop p n) @ [last (RentalState.vals (rentalLoop p (Suc n)))]"
    unfolding rentalLoop_def forYears_Suc by (rule rentalYear_vals)
  then have "RentalState.vals (rentalLoop p (Suc n)) ! 0 = RentalState.vals (rentalLoop p n) ! 0"
    using rentalLoop_length [of p n] by (metis nth_append zero_less_Suc)
  with Suc show ?case by simp
qed

lemma rentalLoop_1:
  "rentalLoop p (Suc 0) = rentalYear p 1
     \<lparr> propertyValue = Fin (purchasePrice p), remainingMortgage = mortgageAmount p,
       cumulativeCashFlow = Fin 0, vals = [Fin (downPayment p)] \<rparr>"
  using forYears_Suc [of 0 "rentalYear p"] by (simp add: rentalLoop_def forYears_0)

text \<open>
  The state after each year, field by field.
\<close>

lemma rentalLoop_Suc: "rentalLoop p (Suc k) = rentalYear p (Suc k) (rentalLoop p k)"
  by (simp add: rentalLoop_def forYears_Suc)

lemma rentalLoop_0:
  "rentalLoop p 0 =
     \<lparr> propertyValue = Fin (purchasePrice p), remainingMortgage = mortgageAmount p,
       cumulativeCashFlow = Fin 0, vals = [Fin (downPayment p)] \<rparr>"
  by (simp add: rentalLoop_def forYears_0)

lemma rentalYear_propertyValue:
  "propertyValue (rentalYear p year s) =
     jsMul (propertyValue s) (jsAdd (Fin 1) (Fin (annualAppreciation p)))"
  by (simp add: rentalYear_def Let_def split: prod.split)

lemma rentalYear_remainingMortgage:
  "remainingMortgage (rentalYear p year s) = snd (mortgageYear p year (remainingMortgage s))"
  by (simp add: rentalYear_def Let_def split: prod.split)

lemma rentalYear_cumulativeCashFlow:
  "cumulativeCashFlow (rentalYear p year s) =
     jsAdd (cumulativeCashFlow s)
       (jsSub
          (jsSub
             (jsMul (jsMul (jsMul (propertyValue (rentalYear p year s)) (Fin (monthlyRentalPercent p)))
                       (Fin 12))
                (jsSub (Fin 1) (Fin (vacancyRate p))))
             (fst (mortgageYear p year (remainingMortgage s))))
          (jsAdd
             (jsAdd (jsMul (propertyValue (rentalYear p year s)) (Fin (maintenanceCostPercent p)))
                (jsMul (propertyValue (rentalYear p year s)) (Fin (annualInsuranceCostPercent p))))
             (jsMul (propertyValue (rentalYear p year s)) (Fin (propertyTaxRate p)))))"
  by (simp add: rentalYear_def Let_def split: prod.split)

lemma rentalYear_last:
  "last (RentalState.vals (rentalYear p year s)) =
     jsAdd
       (jsSub (jsSub (propertyValue (rentalYear p year s)) (remainingMortgage (rentalYear p year s)))
          (jsMul (propertyValue (rentalYear p year s)) (Fin (sellingCostPercent p))))
       (cumulativeCashFlow (rentalYear p year s))"
  by (simp add: rentalYear_def Let_def split: prod.split)

lemma rentalLoop_nth:
  "1 \<le> t \<Longrightarrow> t \<le> n \<Longrightarrow>
     RentalState.vals (rentalLoop p n) ! t =
       jsAdd
         (jsSub (jsSub (propertyValue (rentalLoop p t)) (remainingMortgage (rentalLoop p t)))
            (jsMul (propertyValue (rentalLoop p t)) (Fin (sellingCostPercent p))))
         (cumulativeCashFlow (rentalLoop p t))"
proof (induction n)
  case 0
  then show ?case by simp
next
  case (Suc n)
  have step: "RentalState.vals (rentalLoop p (Suc n)) =
      RentalState.vals (rentalLoop p n) @ [last (RentalState.vals (rentalLoop p (Suc n)))]"
    unfolding rentalLoop_Suc by (rule rentalYear_vals)
  show ?case
  proof (cases "t = Suc n")
    case True
    have "RentalState.vals (rentalLoop p (Suc n)) ! Suc n = last (RentalState.vals (rentalLoop p (Suc n)))"
      using step rentalLoop_length [of p n] by (metis nth_append_length)
    with True show ?thesis by (simp add: rentalLoop_Suc rentalYear_last)
  next
    case False
    with Suc.prems have le: "t \<le> n" by simp
    then have "RentalState.vals (rentalLoop p (Suc n)) ! t = RentalState.vals (rentalLoop p n) ! t"
      using step rentalLoop_length [of p n] by (metis nth_append le_imp_less_Suc)
    with Suc le show ?thesis by simp
  qed
qed

lemma mortgageAmount_Fin: "mortgageAmount p = Fin (purchasePrice p - downPayment p)"
  by (simp add: mortgageAmount_def)

lemma annualMortgagePayment_zero_rate:
  assumes "mortgageRate p = 0" and "downPayment p < purchasePrice p" and "mortgageDuration p \<noteq> 0"
  shows "annualMortgagePayment p = Fin ((purchasePrice p - downPayment p) / mortgageDuration p)"
proof -
  have "(purchasePrice p - downPayment p) / (mortgageDuration p * 12) * 12
      = (purchasePrice p - downPayment p) * 12 / (mortgageDuration p * 12)"
    by simp
  also have "\<dots> = (purchasePrice p - downPayment p) / mortgageDuration p"
    by (rule mult_divide_mult_cancel_right) simp
  finally have eq: "(purchasePrice p - downPayment p) / (mortgageDuration p * 12) * 12
      = (purchasePrice p - downPayment p) / mortgageDuration p" .
  have "annualMortgagePayment p
      = Fin ((purchasePrice p - downPayment p) / (mortgageDuration p * 12) * 12)"
    using assms by (simp add: annualMortgagePayment_def mortgageAmount_Fin)
  with eq show ?thesis by simp
qed

text \<open>One year of a zero-interest loan that is still within its term.\<close>

lemma mortgageYear_zero_rate_paying:
  assumes "mortgageRate p = 0" and "downPayment p < purchasePrice p"
    and "real year \<le> mortgageDuration p" and "1 \<le> year"
    and "(purchasePrice p - downPayment p) / mortgageDuration p \<le> R"
  shows "mortgageYear p year (Fin R) =
           (Fin ((purchasePrice p - downPayment p) / mortgageDuration p),
            Fin (R - (purchasePrice p - downPayment p) / mortgageDuration p))"
proof -
  from assms(3,4) have "0 < mortgageDuration p" by linarith
  then have "annualMortgagePayment p = Fin ((purchasePrice p - downPayment p) / mortgageDuration p)"
    using assms(1,2) by (simp add: annualMortgagePayment_zero_rate)
  with assms show ?thesis
    by (simp add: mortgageYear_def mortgageAmount_Fin Let_def min_def max_def)
qed

lemma mortgageYear_idle:
  assumes "\<not> (real year \<le> mortgageDuration p \<and> downPayment p < purchasePrice p)"
  shows "mortgageYear p year R = (Fin 0, R)"
  using assms by (auto simp add: mortgageYear_def mortgageAmount_Fin)

text \<open>
  Without appreciation, interest, rent and running costs the property keeps its price,
  and the cash paid out equals the principal paid off: the cumulative cash flow is the
  balance minus the amount borrowed.
\<close>

lemma rental_flat_state:
  assumes "annualAppreciation p = 0" and "mortgageRate p = 0" and "monthlyRentalPercent p = 0"
    and "maintenanceCostPercent p = 0" and "annualInsuranceCostPercent p = 0"
    and "propertyTaxRate p = 0"
  shows "propertyValue (rentalLoop p k) = Fin (purchasePrice p)
         \<and> (\<exists>R. remainingMortgage (rentalLoop p k) = Fin R
                \<and> cumulativeCashFlow (rentalLoop p k) = Fin (R - (purchasePrice p - downPayment p))
                \<and> (downPayment p < purchasePrice p \<and> real k \<le> mortgageDuration p \<longrightarrow>
                     R = (purchasePrice p - downPayment p)
                         - real k * ((purchasePrice p - downPayment p) / mortgageDuration p)))"
proof (induction k)
  case 0
  show ?case by (simp add: rentalLoop_0 mortgageAmount_Fin)
next
  case (Suc k)
  define P where "P = purchasePrice p - downPayment p"
  define A where "A = P / mortgageDuration p"
  from Suc obtain R where
    pv: "propertyValue (rentalLoop p k) = Fin (purchasePrice p)" and
    rm: "remainingMortgage (rentalLoop p k) = Fin R" and
    cf: "cumulativeCashFlow (rentalLoop p k) = Fin (R - P)" and
    form: "downPayment p < purchasePrice p \<and> real k \<le> mortgageDuration p \<longrightarrow> R = P - real k * A"
    unfolding P_def A_def by blast
  have pv': "propertyValue (rentalLoop p (Suc k)) = Fin (purchasePrice p)"
    using pv assms(1) by (simp add: rentalLoop_Suc rentalYear_propertyValue)
  have cash: "cumulativeCashFlow (rentalLoop p (Suc k)) =
      jsAdd (Fin (R - P)) (jsSub (jsSub (Fin 0) (fst (mortgageYear p (Suc k) (Fin R)))) (Fin 0))"
    using pv' cf rm assms
    by (simp add: rentalLoop_Suc [symmetric] rentalYear_cumulativeCashFlow [of p "Suc k" "rentalLoop p k", unfolded rentalLoop_Suc [symmetric]])
  have bal: "remainingMortgage (rentalLoop p (Suc k)) = snd (mortgageYear p (Suc k) (Fin R))"
    using rm by (simp add: rentalLoop_Suc rentalYear_remainingMortgage)
  show ?case
  proof (cases "real (Suc k) \<le> mortgageDuration p \<and> downPayment p < purchasePrice p")
    case True
    then have n: "0 < mortgageDuration p" and Ppos: "0 < P" and k: "real k \<le> mortgageDuration p"
      by (simp_all add: P_def)
    with True form have R: "R = P - real k * A" by simp
    have "real (Suc k) * A \<le> P"
    proof -
      have "real (Suc k) * A = P * (real (Suc k) / mortgageDuration p)" by (simp add: A_def)
      also have "\<dots> \<le> P * 1"
        using True n Ppos by (intro mult_left_mono) simp_all
      finally show ?thesis by simp
    qed
    then have "A \<le> R" using R by (simp add: algebra_simps)
    then have my: "mortgageYear p (Suc k) (Fin R) = (Fin A, Fin (R - A))"
      using mortgageYear_zero_rate_paying [of p "Suc k" R] True assms(2)
      by (simp add: A_def P_def)
    have b: "remainingMortgage (rentalLoop p (Suc k)) = Fin (R - A)"
      using bal my by simp
    have c: "cumulativeCashFlow (rentalLoop p (Suc k)) = Fin ((R - A) - P)"
      using cash my by simp
    have f: "R - A = P - real (Suc k) * A"
      using R by (simp add: algebra_simps)
    from pv' b c f show ?thesis
      unfolding P_def A_def by blast
  next
    case False
    then have my: "mortgageYear p (Suc k) (Fin R) = (Fin 0, Fin R)"
      by (rule mortgageYear_idle)
    have b: "remainingMortgage (rentalLoop p (Suc k)) = Fin R"
      using bal my by simp
    have c: "cumulativeCashFlow (rentalLoop p (Suc k)) = Fin (R - P)"
      using cash my by simp
    from pv' b c False show ?thesis
      unfolding P_def by blast
  qed
qed

text \<open>
  The balance of a year is the balance of the year before, passed through the mortgage
  block of the loop body.
\<close>

lemma remainingMortgage_Suc:
  "remainingMortgage (rentalLoop p (Suc k)) =
     snd (mortgageYear p (Suc k) (remainingMortgage (rentalLoop p k)))"
  by (simp add: rentalLoop_Suc rentalYear_remainingMortgage)

lemma mortgageYear_paying:
  assumes "real year \<le> mortgageDuration p \<and> downPayment p < purchasePrice p"
  shows "mortgageYear p year R =
           (annualMortgagePayment p,
            mathMax (jsSub R (mathMin (jsSub (annualMortgagePayment p) (jsMul R (Fin (mortgageRate p)))) R))
              (Fin 0))"
  using assms by (simp add: mortgageYear_def mortgageAmount_Fin Let_def)

lemma balance_after_term:
  assumes "mortgageDuration p < real (Suc m)" and "m \<le> k"
  shows "remainingMortgage (rentalLoop p k) = remainingMortgage (rentalLoop p m)"
  using assms(2)
proof (induction k)
  case 0
  then show ?case by simp
next
  case (Suc k)
  show ?case
  proof (cases "m = Suc k")
    case True
    then show ?thesis by simp
  next
    case False
    with Suc.prems have le: "m \<le> k" by simp
    with assms(1) have "\<not> (real (Suc k) \<le> mortgageDuration p \<and> downPayment p < purchasePrice p)"
      by simp
    then have "mortgageYear p (Suc k) (remainingMortgage (rentalLoop p k))
        = (Fin 0, remainingMortgage (rentalLoop p k))"
      by (rule mortgageYear_idle)
    with Suc.IH [OF le] show ?thesis by (simp add: remainingMortgage_Suc)
  qed
qed

lemma zero_rate_balance:
  assumes "mortgageRate p = 0" and "downPayment p < purchasePrice p"
    and "real k \<le> mortgageDuration p"
  shows "remainingMortgage (rentalLoop p k) =
           Fin ((purchasePrice p - downPayment p)
                - real k * ((purchasePrice p - downPayment p) / mortgageDuration p))"
  using assms(3)
proof (induction k)
  case 0
  show ?case by (simp add: rentalLoop_0 mortgageAmount_Fin)
next
  case (Suc k)
  define P where "P = purchasePrice p - downPayment p"
  define A where "A = P / mortgageDuration p"
  from Suc have R: "remainingMortgage (rentalLoop p k) = Fin (P - real k * A)"
    by (simp add: P_def A_def)
  from Suc.prems have n: "0 < mortgageDuration p" by simp
  from assms(2) have Ppos: "0 < P" by (simp add: P_def)
  have "real (Suc k) * A = P * (real (Suc k) / mortgageDuration p)" by (simp add: A_def)
  also have "\<dots> \<le> P * 1"
    using Suc.prems n Ppos by (intro mult_left_mono) simp_all
  finally have "A \<le> P - real k * A" by (simp add: algebra_simps)
  then have "mortgageYear p (Suc k) (Fin (P - real k * A)) = (Fin A, Fin (P - real k * A - A))"
    using mortgageYear_zero_rate_paying [of p "Suc k" "P - real k * A"] Suc.prems assms(1,2)
    by (simp add: A_def P_def)
  with R have "remainingMortgage (rentalLoop p (Suc k)) = Fin (P - real k * A - A)"
    by (simp add: remainingMortgage_Suc)
  moreover have "P - real k * A - A = P - real (Suc k) * A" by (simp add: algebra_simps)
  ultimately show ?case by (simp add: P_def A_def)
qed

section \<open>Facts about the validators\<close>









section \<open>Length and initial value of the projections\<close>

text \<open>
  C1: for every parameter record of each of the four asset classes and every horizon
  \<open>years\<close>, the projection returns \<open>years + 1\<close> values, and the value at index 0 is
  \<open>initialInvestment - oneTimeFee\<close> for a security, \<open>downPayment\<close> for a rental property,
  \<open>initialInvestment\<close> for a precious metal and \<open>principal\<close> for a fixed-income instrument.
\<close>

theorem projection_length_and_initial_value:
  "length (computeSecurityValues sp years) = years + 1
   \<and> computeSecurityValues sp years ! 0 = Fin (SecurityParams.initialInvestment sp - oneTimeFee sp)
   \<and> length (computeRentalValues rp years) = years + 1
   \<and> computeRentalValues rp years ! 0 = Fin (downPayment rp)
   \<and> length (computePreciousMetalValues mp years) = years + 1
   \<and> computePreciousMetalValues mp years ! 0 = Fin (PreciousMetalParams.initialInvestment mp)
   \<and> length (computeFixedIncomeValues fp years) = years + 1
   \<and> computeFixedIncomeValues fp years ! 0 = Fin (principal fp)"
  by (simp add: computeSecurityValues_def securityLoop_length securityLoop_first startingValue_def
      computeRentalValues_def rentalLoop_length rentalLoop_first
      computePreciousMetalValues_def computeFixedIncomeValues_def pushes_length pushes_nth_old)

section \<open>The mortgage schedule of the rental projection\<close>

text \<open>
  C2: while \<open>year \<le> mortgageDuration\<close> the loop charges the annual payment and amortizes
  with interest \<open>balance * mortgageRate\<close>, principal paid
  \<open>min(annualPayment - interest, balance)\<close> and new balance
  \<open>max(balance - principalPaid, 0)\<close>; after \<open>mortgageDuration\<close> the payment is 0 and the
  balance stays 0.  The code takes twelve monthly payments of the amortization formula as
  the annual payment but charges a full year of interest on the opening balance, so the
  payments of the term do not pay the loan off.  The baseline loan of 240000 at 6% over one
  year, a record the validator accepts, has more than 6528 of balance left after year 1;
  years 2 and 3 are charged no payment and keep that balance.  The zero-interest path of
  the same loan does close at 0.
\<close>

theorem rental_mortgage_balance_not_closed:
  "validateRentalParams rentalOneYearLoan = []
   \<and> mortgageDuration rentalOneYearLoan = 1
   \<and> remainingMortgage (rentalLoop rentalOneYearLoan 1)
       = Fin (254400 - 14400 * 201 ^ 12 / (201 ^ 12 - 200 ^ 12))
   \<and> jsLt (Fin 6528) (remainingMortgage (rentalLoop rentalOneYearLoan 1))
   \<and> mortgageYear rentalOneYearLoan 2 (remainingMortgage (rentalLoop rentalOneYearLoan 1))
       = (Fin 0, remainingMortgage (rentalLoop rentalOneYearLoan 1))
   \<and> remainingMortgage (rentalLoop rentalOneYearLoan 2)
       = remainingMortgage (rentalLoop rentalOneYearLoan 1)
   \<and> remainingMortgage (rentalLoop rentalOneYearLoan 3)
       = remainingMortgage (rentalLoop rentalOneYearLoan 1)
   \<and> remainingMortgage (rentalLoop (rentalOneYearLoan\<lparr>mortgageRate := 0\<rparr>) 1) = Fin 0"
proof -
  have v: "validateRentalParams rentalOneYearLoan = []"
    by (simp add: validateRentalParams_def Let_def pushIf_def rentalOneYearLoan_def rentalBase_def
        isIntegral_def)
  have f1: "mortgageDuration rentalOneYearLoan = 1" "mortgageRate rentalOneYearLoan = 6 / 100"
    "downPayment rentalOneYearLoan = 60000" "purchasePrice rentalOneYearLoan = 300000"
    by (simp_all add: rentalOneYearLoan_def rentalBase_def)
  have p1: "annualMortgagePayment rentalOneYearLoan
      = Fin (14400 * 201 ^ 12 / (201 ^ 12 - 200 ^ 12))"
    by (simp add: annualMortgagePayment_def mortgageAmount_Fin f1 isIntegral_def power_divide)
  have r1: "remainingMortgage (rentalLoop rentalOneYearLoan 1)
      = Fin (254400 - 14400 * 201 ^ 12 / (201 ^ 12 - 200 ^ 12))"
    by (simp add: remainingMortgage_Suc rentalLoop_0 mortgageYear_def mortgageAmount_Fin f1 p1)
  have r1': "jsLt (Fin 6528) (remainingMortgage (rentalLoop rentalOneYearLoan 1))"
    unfolding r1 by simp
  have y2: "mortgageYear rentalOneYearLoan 2 (remainingMortgage (rentalLoop rentalOneYearLoan 1))
      = (Fin 0, remainingMortgage (rentalLoop rentalOneYearLoan 1))"
    by (rule mortgageYear_idle) (simp add: f1)
  have r2: "remainingMortgage (rentalLoop rentalOneYearLoan 2)
      = remainingMortgage (rentalLoop rentalOneYearLoan 1)"
    by (rule balance_after_term) (simp_all add: f1)
  have r3: "remainingMortgage (rentalLoop rentalOneYearLoan 3)
      = remainingMortgage (rentalLoop rentalOneYearLoan 1)"
    by (rule balance_after_term) (simp_all add: f1)
  have z: "remainingMortgage (rentalLoop (rentalOneYearLoan\<lparr>mortgageRate := 0\<rparr>) 1) = Fin 0"
    using zero_rate_balance [of "rentalOneYearLoan\<lparr>mortgageRate := 0\<rparr>" 1]
    by (simp add: f1)
  from v f1(1) r1 r1' y2 r2 r3 z show ?thesis by simp
qed

section \<open>Non-finite values\<close>

text \<open>
  C3: no projection returns NaN or Infinity, whatever the input; in particular not the
  security projection with \<open>reinvestDividends = false\<close> nor the fixed-income projection with
  \<open>reinvestAtMaturity = true\<close>.  Two divisions by zero are not special-cased: a security
  that loses 100% in a year (a record the validator accepts) has the value NaN in year 1,
  and so has a simple-interest instrument rolled over at a maturity of zero years.
\<close>

theorem non_finite_projection_values:
  "validateSecurityParams securityTotalLoss = []
   \<and> \<not> reinvestDividends securityTotalLoss
   \<and> computeSecurityValues securityTotalLoss 1 = [Fin 10000, NaN]
   \<and> \<not> isFinite (computeSecurityValues securityTotalLoss 1 ! 1)
   \<and> reinvestAtMaturity fixedIncomeZeroMaturity
   \<and> computeFixedIncomeValues fixedIncomeZeroMaturity 1 = [Fin 10000, NaN]
   \<and> \<not> isFinite (computeFixedIncomeValues fixedIncomeZeroMaturity 1 ! 1)"
  by (simp add: securityTotalLoss_def securityBase_def validateSecurityParams_def pushIf_def
      isIntegral_def computeSecurityValues_def securityLoop_1 securityYear_def startingValue_def
      netGrowthRate_def Let_def fixedIncomeZeroMaturity_def fixedIncomeBase_def
      computeFixedIncomeValues_def pushes_1 fixedIncomeValue_def)

section \<open>Securities with dividends paid out as cash\<close>

text \<open>
  C4: with \<open>reinvestDividends = false\<close> the principal compounds at
  \<open>annualReturn - expenseRatio\<close>, the dividend of a year is \<open>dividendYield\<close> times the
  compounded balance of the year before, dividend cash is a running sum, and the value of a
  year is the compounded principal plus the cumulative dividend cash.  The code recovers
  the balance of the year before by dividing the new balance by \<open>1 + netGrowthRate\<close>; at a
  net growth rate of -100% this is \<open>0 / 0\<close>.  For the record below (flat return, expense
  ratio of 100%, yield 2%, accepted by the validator) the code returns NaN for year 1, where
  the track of the claim is 0 of principal plus 200 of dividend cash.
\<close>

theorem security_cash_dividends_full_expense:
  "validateSecurityParams securityFullExpense = []
   \<and> \<not> reinvestDividends securityFullExpense
   \<and> computeSecurityValues securityFullExpense 1 = [Fin 10000, NaN]
   \<and> specCompoundedPrincipal securityFullExpense 1 = 0
   \<and> specCumulativeDividendCash securityFullExpense 1 = 200
   \<and> specCashDividendValue securityFullExpense 1 = 200"
  by (simp add: securityFullExpense_def securityBase_def validateSecurityParams_def pushIf_def
      isIntegral_def computeSecurityValues_def securityLoop_1 securityYear_def startingValue_def
      netGrowthRate_def specCashDividendValue_def Let_def)

section \<open>Fixed income: simple interest without reinvestment\<close>

text \<open>
  C5: for a fixed-income record with simple interest and no reinvestment, the value of
  every year \<open>t\<close> from 1 to the horizon is
  \<open>principal * (1 + annualYield * min(t, maturityYears))\<close>; with principal 10000, yield 0.05
  and maturity 3 it is 11500 in every year from 3 on.
\<close>

theorem fixed_income_simple_flatline:
  assumes "compoundingMethod p = Simple" and "\<not> reinvestAtMaturity p"
    and "1 \<le> t" and "t \<le> years"
  shows "computeFixedIncomeValues p years ! t =
           Fin (principal p * (1 + annualYield p * min (real t) (maturityYears p)))
         \<and> (principal p = 10000 \<and> annualYield p = 5 / 100 \<and> maturityYears p = 3 \<and> 3 \<le> t
              \<longrightarrow> computeFixedIncomeValues p years ! t = Fin 11500)"
proof -
  have v: "computeFixedIncomeValues p years ! t =
      Fin (principal p * (1 + annualYield p * min (real t) (maturityYears p)))"
    using assms by (simp add: fixedIncome_nth fixedIncomeValue_def)
  have "computeFixedIncomeValues p years ! t = Fin 11500"
    if "principal p = 10000" "annualYield p = 5 / 100" "maturityYears p = 3" "3 \<le> t"
  proof -
    from that have "min (real t) (maturityYears p) = 3" by simp
    with v that show ?thesis by simp
  qed
  with v show ?thesis by blast
qed

text \<open>
  The fourth of six years of a three-year instrument of 10000 at 5% simple interest.
\<close>

theorem fixed_income_simple_flatline_witness:
  "compoundingMethod (fixedIncomeBase\<lparr>compoundingMethod := Simple, maturityYears := 3\<rparr>) = Simple
   \<and> \<not> reinvestAtMaturity (fixedIncomeBase\<lparr>compoundingMethod := Simple, maturityYears := 3\<rparr>)
   \<and> (1::nat) \<le> 4 \<and> (4::nat) \<le> 6
   \<and> computeFixedIncomeValues (fixedIncomeBase\<lparr>compoundingMethod := Simple, maturityYears := 3\<rparr>) 6 ! 4
       = Fin 11500"
  using fixed_income_simple_flatline
    [of "fixedIncomeBase\<lparr>compoundingMethod := Simple, maturityYears := 3\<rparr>" 4 6]
  by (simp add: fixedIncomeBase_def)

section \<open>Fixed income: annual compounding with reinvestment\<close>

text \<open>
  C6: for a fixed-income record with annual compounding and reinvestment, the value of
  every year \<open>t\<close> of the horizon is \<open>principal * (1 + annualYield)^t\<close>, and a record that
  differs only in \<open>maturityYears\<close> has the same sequence of values.
\<close>

theorem fixed_income_annual_reinvest:
  assumes "compoundingMethod p = Annual" and "reinvestAtMaturity p" and "t \<le> years"
  shows "computeFixedIncomeValues p years ! t = Fin (principal p * (1 + annualYield p) ^ t)
         \<and> computeFixedIncomeValues (p\<lparr>maturityYears := m\<rparr>) years = computeFixedIncomeValues p years"
proof -
  have a: "computeFixedIncomeValues p years ! t = Fin (principal p * (1 + annualYield p) ^ t)"
  proof (cases "t = 0")
    case True
    then show ?thesis by (simp add: computeFixedIncomeValues_def pushes_nth_old)
  next
    case False
    with assms show ?thesis by (simp add: fixedIncome_nth fixedIncomeValue_annual_reinvest)
  qed
  have "fixedIncomeValue (p\<lparr>maturityYears := m\<rparr>) year = fixedIncomeValue p year" for year
    using assms by (simp add: fixedIncomeValue_annual_reinvest)
  then have "(\<lambda>year vs. vs @ [fixedIncomeValue (p\<lparr>maturityYears := m\<rparr>) year])
      = (\<lambda>year vs. vs @ [fixedIncomeValue p year])"
    by simp
  then have "computeFixedIncomeValues (p\<lparr>maturityYears := m\<rparr>) years = computeFixedIncomeValues p years"
    by (simp add: computeFixedIncomeValues_def)
  with a show ?thesis by simp
qed

text \<open>
  Year 2 of 10000 at 5%, and the same instrument with a maturity of one year instead of five.
\<close>

theorem fixed_income_annual_reinvest_witness:
  "compoundingMethod (fixedIncomeBase\<lparr>reinvestAtMaturity := True\<rparr>) = Annual
   \<and> reinvestAtMaturity (fixedIncomeBase\<lparr>reinvestAtMaturity := True\<rparr>)
   \<and> (2::nat) \<le> 3
   \<and> computeFixedIncomeValues (fixedIncomeBase\<lparr>reinvestAtMaturity := True\<rparr>) 3 ! 2 = Fin 11025
   \<and> computeFixedIncomeValues (fixedIncomeBase\<lparr>reinvestAtMaturity := True, maturityYears := 1\<rparr>) 3
       = computeFixedIncomeValues (fixedIncomeBase\<lparr>reinvestAtMaturity := True\<rparr>) 3"
  using fixed_income_annual_reinvest [of "fixedIncomeBase\<lparr>reinvestAtMaturity := True\<rparr>" 2 3 1]
  by (simp add: fixedIncomeBase_def power2_eq_square)

section \<open>Precious metals\<close>

text \<open>
  C7: the value at index 0 of a precious-metal projection is \<open>initialInvestment\<close>, whatever
  the transaction fee, and the value of every year \<open>t\<close> from 1 to the horizon is
  \<open>initialInvestment * (1 + annualPriceIncrease)^t * (1 - transactionFeePercent)\<close>.
\<close>

theorem precious_metal_values:
  "computePreciousMetalValues p years ! 0 = Fin (PreciousMetalParams.initialInvestment p)
   \<and> computePreciousMetalValues (p\<lparr>transactionFeePercent := f\<rparr>) years ! 0
       = computePreciousMetalValues p years ! 0
   \<and> (1 \<le> t \<and> t \<le> years \<longrightarrow>
        computePreciousMetalValues p years ! t =
          Fin (PreciousMetalParams.initialInvestment p * (1 + annualPriceIncrease p) ^ t
               * (1 - transactionFeePercent p)))"
  by (simp add: computePreciousMetalValues_def pushes_nth_old pushes_nth_new
      preciousMetalValue_def)

text \<open>
  10000 of metal at 5% a year with a 2% fee: 10290 after one year.
\<close>

theorem precious_metal_values_witness:
  "computePreciousMetalValues (preciousMetalBase\<lparr>transactionFeePercent := 2 / 100\<rparr>) 1 ! 0 = Fin 10000
   \<and> computePreciousMetalValues (preciousMetalBase\<lparr>transactionFeePercent := 2 / 100\<rparr>) 1 ! 0
       = computePreciousMetalValues preciousMetalBase 1 ! 0
   \<and> (1::nat) \<le> 1
   \<and> computePreciousMetalValues (preciousMetalBase\<lparr>transactionFeePercent := 2 / 100\<rparr>) 1 ! 1 = Fin 10290"
  using precious_metal_values [of preciousMetalBase 1 "2 / 100" 1]
    precious_metal_values [of "preciousMetalBase\<lparr>transactionFeePercent := 2 / 100\<rparr>" 1 0 1]
  by (simp add: preciousMetalBase_def)

section \<open>The validators\<close>



section \<open>The flat rental property\<close>

text \<open>
  C9, amended: for every rental record with \<open>annualAppreciation = 0\<close>,
  \<open>mortgageRate = 0\<close>, no rental income, and also no maintenance, insurance, property-tax
  and selling costs, the projected value of every year of every horizon is \<open>downPayment\<close>.
\<close>

theorem rental_flat_value:
  assumes "annualAppreciation p = 0" and "mortgageRate p = 0" and "monthlyRentalPercent p = 0"
    and "maintenanceCostPercent p = 0" and "annualInsuranceCostPercent p = 0"
    and "propertyTaxRate p = 0" and "sellingCostPercent p = 0" and "t \<le> years"
  shows "computeRentalValues p years ! t = Fin (downPayment p)"
proof (cases "t = 0")
  case True
  then show ?thesis by (simp add: computeRentalValues_def rentalLoop_first)
next
  case False
  from rental_flat_state [OF assms(1-6), of t] obtain R where
    "propertyValue (rentalLoop p t) = Fin (purchasePrice p)"
    "remainingMortgage (rentalLoop p t) = Fin R"
    "cumulativeCashFlow (rentalLoop p t) = Fin (R - (purchasePrice p - downPayment p))"
    by blast
  with False assms(7,8) show ?thesis
    by (simp add: computeRentalValues_def rentalLoop_nth)
qed

text \<open>
  The record of the test suite: 300000 bought with 60000 down, after two of three years.
\<close>

theorem rental_flat_value_witness:
  "annualAppreciation rentalFlat = 0 \<and> mortgageRate rentalFlat = 0
   \<and> monthlyRentalPercent rentalFlat = 0 \<and> maintenanceCostPercent rentalFlat = 0
   \<and> annualInsuranceCostPercent rentalFlat = 0 \<and> propertyTaxRate rentalFlat = 0
   \<and> sellingCostPercent rentalFlat = 0 \<and> (2::nat) \<le> 3
   \<and> computeRentalValues rentalFlat 3 ! 2 = Fin 60000"
  using rental_flat_value [of rentalFlat 2 3]
  by (simp add: rentalFlat_def rentalBase_def)

text \<open>
  C9 as stated fails: with no appreciation, no interest and no rent, but the default cost
  rates (1% maintenance, 1% insurance, 1.2% property tax, 6% selling cost), the value after
  one year is 32400 and not the down payment of 60000; a selling cost alone, or a property
  tax alone, also moves the value off the down payment.
\<close>

theorem rental_flat_value_needs_zero_costs:
  "annualAppreciation (rentalDefault\<lparr>annualAppreciation := 0, mortgageRate := 0, monthlyRentalPercent := 0\<rparr>) = 0
   \<and> mortgageRate (rentalDefault\<lparr>annualAppreciation := 0, mortgageRate := 0, monthlyRentalPercent := 0\<rparr>) = 0
   \<and> monthlyRentalPercent (rentalDefault\<lparr>annualAppreciation := 0, mortgageRate := 0, monthlyRentalPercent := 0\<rparr>) = 0
   \<and> computeRentalValues
         (rentalDefault\<lparr>annualAppreciation := 0, mortgageRate := 0, monthlyRentalPercent := 0\<rparr>) 1
       = [Fin 60000, Fin 32400]
   \<and> computeRentalValues (rentalFlat\<lparr>sellingCostPercent := 6 / 100\<rparr>) 1 = [Fin 60000, Fin 42000]
   \<and> computeRentalValues (rentalFlat\<lparr>propertyTaxRate := 12 / 1000\<rparr>) 1 = [Fin 60000, Fin 56400]"
  by (simp add: rentalFlat_def rentalBase_def rentalDefault_def computeRentalValues_def rentalLoop_1
      rentalYear_def mortgageYear_def mortgageAmount_def annualMortgagePayment_def)

section \<open>The rental validator and the value-relative fields\<close>

text \<open>
  C10: the rental validator does not depend on \<open>monthlyRentalPercent\<close> and
  \<open>annualInsuranceCostPercent\<close>: two records that differ only there get the same list of
  errors, and a record with a negative value in either field and every checked field in
  range gets the empty list, while the projection reads both fields (its values change).
\<close>

theorem rental_validator_ignores_percent_fields:
  "validateRentalParams (p\<lparr>monthlyRentalPercent := a, annualInsuranceCostPercent := b\<rparr>)
     = validateRentalParams p
   \<and> validateRentalParams (rentalPaidInFull\<lparr>monthlyRentalPercent := - 1 / 100\<rparr>) = []
   \<and> validateRentalParams (rentalPaidInFull\<lparr>annualInsuranceCostPercent := - 1 / 100\<rparr>) = []
   \<and> computeRentalValues rentalPaidInFull 1 = [Fin 300000, Fin 315798]
   \<and> computeRentalValues (rentalPaidInFull\<lparr>monthlyRentalPercent := - 1 / 100\<rparr>) 1
       = [Fin 300000, Fin 245346]
   \<and> computeRentalValues (rentalPaidInFull\<lparr>annualInsuranceCostPercent := - 1 / 100\<rparr>) 1
       = [Fin 300000, Fin 321978]"
proof -
  have "validateRentalParams (p\<lparr>monthlyRentalPercent := a, annualInsuranceCostPercent := b\<rparr>)
      = validateRentalParams p"
    by (simp add: validateRentalParams_def)
  moreover have "validateRentalParams (rentalPaidInFull\<lparr>monthlyRentalPercent := - 1 / 100\<rparr>) = []"
    "validateRentalParams (rentalPaidInFull\<lparr>annualInsuranceCostPercent := - 1 / 100\<rparr>) = []"
    by (simp_all add: validateRentalParams_def Let_def pushIf_def rentalPaidInFull_def
        rentalDefault_def isIntegral_def)
  moreover have "computeRentalValues rentalPaidInFull 1 = [Fin 300000, Fin 315798]"
    "computeRentalValues (rentalPaidInFull\<lparr>monthlyRentalPercent := - 1 / 100\<rparr>) 1
       = [Fin 300000, Fin 245346]"
    "computeRentalValues (rentalPaidInFull\<lparr>annualInsuranceCostPercent := - 1 / 100\<rparr>) 1
       = [Fin 300000, Fin 321978]"
    by (simp_all add: rentalPaidInFull_def rentalDefault_def computeRentalValues_def rentalLoop_1
        rentalYear_def mortgageYear_def mortgageAmount_def annualMortgagePayment_def)
  ultimately show ?thesis by (simp only: simp_thms)
qed

end
